theory Spec2Isabelle
  imports Main "HOL-Library.Sublist"
begin

section \<open>JavaScript values and string primitives used by index.js\<close>

text \<open>
  A JavaScript value that is either a string or \<open>undefined\<close> is a \<open>string option\<close>
  (\<open>None\<close> is \<open>undefined\<close>). A template literal and \<open>RegExp.prototype.test\<close> coerce
  their argument to a string; \<open>undefined\<close> becomes the text \<open>undefined\<close>.
\<close>

definition js_str :: "string option \<Rightarrow> string" where
  "js_str v = (case v of None \<Rightarrow> ''undefined'' | Some s \<Rightarrow> s)"

text \<open>
  \<open>s.split(c)\<close> for a separator of one character: the pieces between the separators, in
  order; a string without the separator is the only piece, and the empty string gives one
  empty piece.
\<close>

fun split_on :: "char \<Rightarrow> string \<Rightarrow> string list" where
  "split_on c [] = [[]]"
| "split_on c (x # xs) =
     (if x = c then [] # split_on c xs
      else (case split_on c xs of
              [] \<Rightarrow> [[x]]
            | p # ps \<Rightarrow> (x # p) # ps))"

text \<open>\<open>a[i]\<close> on an array: \<open>undefined\<close> beyond the end.\<close>

fun js_index :: "'a list \<Rightarrow> nat \<Rightarrow> 'a option" where
  "js_index [] i = None"
| "js_index (x # xs) 0 = Some x"
| "js_index (x # xs) (Suc i) = js_index xs i"

text \<open>
  \<open>s.replace(a, b)\<close> with a pattern string and a replacement string of one character each
  (the replacement holds no \<open>$\<close>): the first occurrence of \<open>a\<close> becomes \<open>b\<close>, the
  rest of the string is copied.
\<close>

fun replace_first :: "char \<Rightarrow> char \<Rightarrow> string \<Rightarrow> string" where
  "replace_first a b [] = []"
| "replace_first a b (x # xs) = (if x = a then b # xs else x # replace_first a b xs)"

text \<open>\<open>xs.join(sep)\<close> on an array of strings.\<close>

fun join :: "string \<Rightarrow> string list \<Rightarrow> string" where
  "join sep [] = []"
| "join sep [x] = x"
| "join sep (x # y # ys) = x @ sep @ join sep (y # ys)"

text \<open>
  ToBoolean on the values the source tests: \<open>undefined\<close>, \<open>null\<close>, a boolean, a string
  (false when empty), an array and an object (both always true).
\<close>

datatype 'a js_value =
    JUndefined
  | JNull
  | JBool bool
  | JString string
  | JArray "'a list"
  | JObject 'a

fun truthy :: "'a js_value \<Rightarrow> bool" where
  "truthy JUndefined = False"
| "truthy JNull = False"
| "truthy (JBool b) = b"
| "truthy (JString s) = (s \<noteq> [])"
| "truthy (JArray xs) = True"
| "truthy (JObject x) = True"

datatype error = TypeError string | Thrown string

fun message :: "error \<Rightarrow> string" where
  "message (TypeError m) = m"
| "message (Thrown m) = m"

section \<open>The policy table and the image lookup\<close>

text \<open>
  \<open>ENV_VERSION_COMPARATOR\<close> (lines 12-16) is an object literal; its keys are not integer
  keys, so \<open>Object.keys\<close> lists them in the order they are written.
\<close>

definition ENV_VERSION_COMPARATOR :: "(string \<times> string) list" where
  "ENV_VERSION_COMPARATOR =
     [(''dev'', ''>=''), (''sandbox'', ''^''), (''production'', ''~'')]"

definition object_keys :: "(string \<times> 'a) list \<Rightarrow> string list" where
  "object_keys obj = map fst obj"

record current_image =
  image :: string
  tag :: "string option"

text \<open>
  Lines 44-49 of \<open>getCurrentImage\<close>: the returned object, from the image reference of the
  container definition that was found.
\<close>

definition image_result :: "string \<Rightarrow> current_image" where
  "image_result currentImage =
     \<lparr>image = currentImage, tag = js_index (split_on CHR '':'' currentImage) 1\<rparr>"

text \<open>
  The ECS calls of lines 19-43 (two requests and the search of the container definitions)
  are the parameter \<open>ecs\<close>: from the environment, the key, the secret, the repository
  name, the cluster and the service it gives the image reference of line 44, or the error
  that one of these lines throws.
\<close>

type_synonym ecs =
  "string \<Rightarrow> string option \<Rightarrow> string option \<Rightarrow> string option \<Rightarrow> string \<Rightarrow> string
     \<Rightarrow> error + string"

definition getCurrentImage ::
  "ecs \<Rightarrow> string \<Rightarrow> string option \<Rightarrow> string option \<Rightarrow> string option \<Rightarrow> string \<Rightarrow> string
     \<Rightarrow> error + current_image" where
  "getCurrentImage ecs_calls e k sec repo cluster service =
     (case ecs_calls e k sec repo cluster service of
        Inl err \<Rightarrow> Inl err
      | Inr currentImage \<Rightarrow> Inr (image_result currentImage))"

section \<open>The gate of lines 101-121\<close>

record gate_result =
  env :: string
  currentImageTag :: "string option"
  releaseVersion :: string
  willBeReplaced :: bool

text \<open>The comment of lines 106-108: the release version with its first \<open>-\<close> made \<open>+\<close>.\<close>

definition tagAsBuild :: "string \<Rightarrow> string" where
  "tagAsBuild v = replace_first CHR ''-'' CHR ''+'' v"

text \<open>
  The semver package is a dependency of the repository. The gate takes its two functions
  as parameters: \<open>parse\<close> gives a version object or \<open>null\<close> (\<open>None\<close>), \<open>satisfies\<close>
  takes the version and the range as strings.
\<close>

definition evaluate ::
  "(string option \<Rightarrow> 'v option) \<Rightarrow> (string \<Rightarrow> string \<Rightarrow> bool) \<Rightarrow> string \<Rightarrow> current_image
     \<Rightarrow> string \<Rightarrow> gate_result" where
  "evaluate parse satisfies e img v =
     (let tg = tag img;
          versionComparator = map_of ENV_VERSION_COMPARATOR e;
          isCurrentImageSemver = parse tg;
          semverRange = js_str versionComparator @ js_str tg;
          asBuild = tagAsBuild v;
          replaced =
            (if isCurrentImageSemver \<noteq> None \<and> satisfies asBuild semverRange then True
             else if prefix ''latest'' (js_str tg) then True
             else False)
      in \<lparr>env = e, currentImageTag = tg, releaseVersion = v, willBeReplaced = replaced\<rparr>)"

section \<open>The orchestration of lines 52-129\<close>

text \<open>
  The options object of \<open>deploymentFeedback\<close>. The credentials are strings or
  \<open>undefined\<close>; \<open>run\<close> passes what \<open>core.getInput\<close> returns, a string that is empty
  for an input that was not given.
\<close>

record opts =
  opt_releaseVersion :: string
  repoName :: "string option"
  clusterName :: string
  serviceName :: string
  devEcsKey :: "string option"
  devEcsSecret :: "string option"
  sandboxEcsKey :: "string option"
  sandboxEcsSecret :: "string option"
  productionEcsKey :: "string option"
  productionEcsSecret :: "string option"

record ecs_credentials =
  key :: "string option"
  secret :: "string option"

definition ECS :: "opts \<Rightarrow> (string \<times> ecs_credentials) list" where
  "ECS os =
     [(''dev'', \<lparr>key = devEcsKey os, secret = devEcsSecret os\<rparr>),
      (''sandbox'', \<lparr>key = sandboxEcsKey os, secret = sandboxEcsSecret os\<rparr>),
      (''production'', \<lparr>key = productionEcsKey os, secret = productionEcsSecret os\<rparr>)]"

text \<open>Line 83: \<open>!!ECS[env]\<close>, the truth value of the object stored under the key.\<close>

definition hasCredentials :: "opts \<Rightarrow> string \<Rightarrow> bool" where
  "hasCredentials os e =
     truthy (case map_of (ECS os) e of None \<Rightarrow> JUndefined | Some c \<Rightarrow> JObject c)"

definition envs :: "opts \<Rightarrow> string list" where
  "envs os = filter (hasCredentials os) (object_keys ENV_VERSION_COMPARATOR)"

text \<open>
  What the program takes from outside: the two semver functions, the ECS calls, the
  GitHub request of \<open>findPullRequest\<close> and the clock of line 215.
\<close>

record pull_request =
  number :: nat
  state :: string
  base_ref :: string

record 'v externals =
  parse :: "string option \<Rightarrow> 'v option"
  satisfies :: "string \<Rightarrow> string \<Rightarrow> bool"
  describe :: ecs
  listPullRequestsAssociatedWithCommit ::
    "string \<Rightarrow> string option \<Rightarrow> string option \<Rightarrow> string \<Rightarrow> error + pull_request list"
  toISOString :: string

text \<open>
  The async function of lines 88-125 for one environment. Whatever is thrown inside the
  \<open>try\<close> is caught at line 122, logged, and the function ends without a \<open>return\<close>:
  its promise fulfils with \<open>undefined\<close> (\<open>None\<close>).
\<close>

definition branch :: "'v externals \<Rightarrow> opts \<Rightarrow> string \<Rightarrow> gate_result option" where
  "branch ext os e =
     (case map_of (ECS os) e of
        None \<Rightarrow> None
      | Some c \<Rightarrow>
          (case getCurrentImage (describe ext) e (key c) (secret c) (repoName os)
                  (e @ ''-'' @ clusterName os) (e @ ''-'' @ serviceName os) of
             Inl err \<Rightarrow> None
           | Inr img \<Rightarrow>
               Some (evaluate (parse ext) (satisfies ext) e img (opt_releaseVersion os))))"

text \<open>
  \<open>Promise.all\<close> over promises that all fulfil: it keeps an array with one slot per
  promise, the fulfilment of promise \<open>i\<close> stores its value in slot \<open>i\<close>, and it
  fulfils with the array once every slot is filled. \<open>completion\<close> is the order in which
  the promises fulfil; \<open>None\<close> is a \<open>Promise.all\<close> that is still pending.
\<close>

definition fulfil :: "'a list \<Rightarrow> nat \<Rightarrow> 'a option list \<Rightarrow> 'a option list" where
  "fulfil vals i slots = (if i < length vals then slots[i := Some (vals ! i)] else slots)"

definition promise_all :: "nat list \<Rightarrow> 'a list \<Rightarrow> 'a list option" where
  "promise_all completion vals =
     those (fold (fulfil vals) completion (replicate (length vals) None))"

text \<open>The value that \<open>deploymentFeedback\<close> fulfils with, under a completion order.\<close>

definition deploymentFeedback_completing ::
  "nat list \<Rightarrow> 'v externals \<Rightarrow> opts \<Rightarrow> gate_result option list option" where
  "deploymentFeedback_completing completion ext os =
     promise_all completion (map (branch ext os) (envs os))"

text \<open>The same value, with the array of \<open>Promise.all\<close> read off in the order of \<open>envs\<close>.\<close>

definition deploymentFeedback :: "'v externals \<Rightarrow> opts \<Rightarrow> gate_result option list" where
  "deploymentFeedback ext os = map (branch ext os) (envs os)"

section \<open>Pull request discovery, lines 147-166\<close>

datatype branch_taken = ThenBranch | ElseBranch

text \<open>
  Lines 156-165 on the array of the response, with the branch of the \<open>if\<close> of line 160
  that was taken.
\<close>

definition mainPrs_of :: "pull_request list \<Rightarrow> branch_taken \<times> pull_request list" where
  "mainPrs_of relatedPulls =
     (let openPrs = filter (\<lambda>pr. state pr = ''open'') relatedPulls;
          mainPrs = filter (\<lambda>pr. base_ref pr = ''main'') openPrs
      in if truthy (JArray mainPrs) then (ThenBranch, mainPrs) else (ElseBranch, []))"

definition findPullRequest ::
  "'v externals \<Rightarrow> string \<Rightarrow> string option \<Rightarrow> string option \<Rightarrow> string
     \<Rightarrow> error + pull_request list" where
  "findPullRequest ext token owner repo sha =
     (case listPullRequestsAssociatedWithCommit ext token owner repo sha of
        Inl err \<Rightarrow> Inl err
      | Inr relatedPulls \<Rightarrow> Inr (snd (mainPrs_of relatedPulls)))"

section \<open>The summary and the run, lines 168-228\<close>

text \<open>The two glyphs are U+2705 and U+274C, here as their UTF-8 bytes.\<close>

definition glyph_updated :: string where
  "glyph_updated = [CHR 0xE2, CHR 0x9C, CHR 0x85]"

definition glyph_not_updated :: string where
  "glyph_not_updated = [CHR 0xE2, CHR 0x9D, CHR 0x8C]"

definition newline :: char where
  "newline = CHR 0x0A"

text \<open>
  The callback of lines 203-209. Reading \<open>i.willBeReplaced\<close> of an \<open>undefined\<close> entry
  throws a TypeError.
\<close>

definition undefined_read :: string where
  "undefined_read = ''Cannot read properties of undefined (reading 'willBeReplaced')''"

definition summary_line :: "gate_result option \<Rightarrow> error + string" where
  "summary_line i =
     (case i of
        None \<Rightarrow> Inl (TypeError undefined_read)
      | Some r \<Rightarrow>
          Inr (if willBeReplaced r
               then glyph_updated @ '' **'' @ env r @ ''** will be updated, currently running ''
                      @ js_str (currentImageTag r)
               else glyph_not_updated @ '' **'' @ env r
                      @ ''** will not be updated, currently running ''
                      @ js_str (currentImageTag r)))"

text \<open>\<open>Array.prototype.map\<close> with a callback that may throw: the first throw ends it.\<close>

fun map_throwing :: "('a \<Rightarrow> error + 'b) \<Rightarrow> 'a list \<Rightarrow> error + 'b list" where
  "map_throwing f [] = Inr []"
| "map_throwing f (x # xs) =
     (case f x of
        Inl err \<Rightarrow> Inl err
      | Inr y \<Rightarrow> (case map_throwing f xs of Inl err \<Rightarrow> Inl err | Inr ys \<Rightarrow> Inr (y # ys)))"

definition summary_header :: "string \<Rightarrow> string" where
  "summary_header v = ''Continuous Deployment Summary for **v'' @ v @ ''**:''"

definition summary_footer :: "string \<Rightarrow> string" where
  "summary_footer ts = ''_Information valid as of '' @ ts @ ''_''"

text \<open>The template literal of lines 211-215.\<close>

definition comment_body :: "string \<Rightarrow> string list \<Rightarrow> string \<Rightarrow> string" where
  "comment_body v summary ts =
     summary_header v @ [newline, newline] @ join [newline] summary
       @ [newline, newline] @ summary_footer ts"

text \<open>Lines 203-215 together: the comment body, or the error thrown on the way.\<close>

definition render :: "gate_result option list \<Rightarrow> string \<Rightarrow> string \<Rightarrow> error + string" where
  "render images v ts =
     (case map_throwing summary_line images of
        Inl err \<Rightarrow> Inl err
      | Inr summary \<Rightarrow> Inr (comment_body v summary ts))"

text \<open>
  \<open>JSON.stringify\<close> on the value of \<open>deploymentFeedback\<close>. A string is quoted with the
  escapes of the standard; an \<open>undefined\<close> element of an array is written \<open>null\<close>; a
  property whose value is \<open>undefined\<close> is left out of its object.
\<close>

definition hex_digit :: "nat \<Rightarrow> char" where
  "hex_digit n = (case js_index ''0123456789abcdef'' n of None \<Rightarrow> CHR ''0'' | Some c \<Rightarrow> c)"

definition json_escape :: "char \<Rightarrow> string" where
  "json_escape c =
     (if c = CHR 0x22 then [CHR 0x5C, CHR 0x22]
      else if c = CHR 0x5C then [CHR 0x5C, CHR 0x5C]
      else if c = CHR 0x08 then [CHR 0x5C, CHR ''b'']
      else if c = CHR 0x0C then [CHR 0x5C, CHR ''f'']
      else if c = CHR 0x0A then [CHR 0x5C, CHR ''n'']
      else if c = CHR 0x0D then [CHR 0x5C, CHR ''r'']
      else if c = CHR 0x09 then [CHR 0x5C, CHR ''t'']
      else if (of_char c :: nat) < 32
        then [CHR 0x5C, CHR ''u'', CHR ''0'', CHR ''0'',
              hex_digit ((of_char c :: nat) div 16), hex_digit ((of_char c :: nat) mod 16)]
      else [c])"

definition json_quote :: "string \<Rightarrow> string" where
  "json_quote s = [CHR 0x22] @ concat (map json_escape s) @ [CHR 0x22]"

definition json_property :: "string \<Rightarrow> string \<Rightarrow> string" where
  "json_property name val = json_quote name @ '':'' @ val"

definition json_gate_result :: "gate_result \<Rightarrow> string" where
  "json_gate_result r =
     ''{'' @ join '',''
       ([json_property ''env'' (json_quote (env r))]
        @ (case currentImageTag r of
             None \<Rightarrow> []
           | Some t \<Rightarrow> [json_property ''currentImageTag'' (json_quote t)])
        @ [json_property ''releaseVersion'' (json_quote (releaseVersion r)),
           json_property ''willBeReplaced'' (if willBeReplaced r then ''true'' else ''false'')])
     @ ''}''"

definition json_element :: "gate_result option \<Rightarrow> string" where
  "json_element i = (case i of None \<Rightarrow> ''null'' | Some r \<Rightarrow> json_gate_result r)"

definition json_images :: "gate_result option list \<Rightarrow> string" where
  "json_images images = ''['' @ join '','' (map json_element images) @ '']''"

text \<open>
  What a run leaves behind: the message given to \<open>core.setFailed\<close> if it was called, the
  comments handed to \<open>createComment\<close> (issue number and body), and the value given to
  \<open>core.setOutput\<close> under the name \<open>images\<close> if it was called.
\<close>

record run_outcome =
  failed :: "string option"
  comments :: "(nat \<times> string) list"
  output_images :: "string option"

text \<open>
  \<open>run\<close>, lines 168-228. \<open>getInput\<close> is \<open>core.getInput\<close>. Any throw between lines
  170 and 224 reaches the \<open>catch\<close> of line 225. \<open>createComment\<close> catches the failure of
  its request itself.
\<close>

definition run :: "'v externals \<Rightarrow> (string \<Rightarrow> string) \<Rightarrow> run_outcome" where
  "run ext getInput =
     (let version = getInput ''releaseVersion'';
          parts = split_on CHR ''/'' (getInput ''repository'');
          owner = js_index parts 0;
          repo = js_index parts 1;
          images = deploymentFeedback ext
            \<lparr>opt_releaseVersion = version,
             repoName = repo,
             clusterName = getInput ''clusterName'',
             serviceName = getInput ''serviceName'',
             devEcsKey = Some (getInput ''devEcsKey''),
             devEcsSecret = Some (getInput ''devEcsSecret''),
             sandboxEcsKey = Some (getInput ''sandboxEcsKey''),
             sandboxEcsSecret = Some (getInput ''sandboxEcsSecret''),
             productionEcsKey = Some (getInput ''productionEcsKey''),
             productionEcsSecret = Some (getInput ''productionEcsSecret'')\<rparr>
      in case render images version (toISOString ext) of
           Inl err \<Rightarrow> \<lparr>failed = Some (message err), comments = [], output_images = None\<rparr>
         | Inr body \<Rightarrow>
             (case findPullRequest ext (getInput ''token'') owner repo (getInput ''sha'') of
                Inl err \<Rightarrow>
                  \<lparr>failed = Some (message err), comments = [], output_images = None\<rparr>
              | Inr prs \<Rightarrow>
                  \<lparr>failed = None,
                   comments = map (\<lambda>pr. (number pr, body)) prs,
                   output_images = Some (json_images images)\<rparr>))"

section \<open>The semver functions\<close>

text \<open>
  Modelled from the spec: the functions \<open>parse\<close> and \<open>satisfies\<close> of the semver
  package, which the repository depends on and does not contain. The spec (4.1, 4.3) gives
  ranges made of a comparator and a version: \<open>>=\<close> admits every version that is
  semver-greater-or-equal, \<open>^\<close> has caret-range semantics (the leftmost non-zero of
  major, minor and patch stays the same), \<open>~\<close> has tilde-range semantics (major and
  minor stay the same); build metadata does not take part in a comparison. A version is
  \<open>major.minor.patch\<close>, three numbers without leading zeros, then optionally \<open>-\<close>
  and dot-separated prerelease identifiers, then optionally \<open>+\<close> and dot-separated
  build identifiers. Precedence is that of semantic versioning: the three numbers in
  order, then a version with a prerelease before the same version without one, then the
  prerelease identifiers from the left. The part of the package outside this (loose
  parsing, a leading \<open>v\<close>, partial versions and compound ranges) is not modelled: such
  a string does not parse here.
\<close>

record semver =
  major :: nat
  minor :: nat
  patch :: nat
  prerelease :: "string list"
  build :: "string list"

definition is_digit :: "char \<Rightarrow> bool" where
  "is_digit c = (c \<in> set ''0123456789'')"

definition is_letter :: "char \<Rightarrow> bool" where
  "is_letter c = (c \<in> set ''abcdefghijklmnopqrstuvwxyzABCDEFGHIJKLMNOPQRSTUVWXYZ'')"

definition is_identifier_char :: "char \<Rightarrow> bool" where
  "is_identifier_char c = (is_digit c \<or> is_letter c \<or> c = CHR ''-'')"

definition digit_value :: "char \<Rightarrow> nat" where
  "digit_value c = of_char c - 48"

definition nat_of_digits :: "string \<Rightarrow> nat" where
  "nat_of_digits s = fold (\<lambda>c n. 10 * n + digit_value c) s 0"

fun numeric_identifier :: "string \<Rightarrow> bool" where
  "numeric_identifier [] = False"
| "numeric_identifier (c # cs) =
     (list_all is_digit (c # cs) \<and> (if cs = [] then True else c \<noteq> CHR ''0''))"

definition prerelease_identifier :: "string \<Rightarrow> bool" where
  "prerelease_identifier s =
     (s \<noteq> [] \<and> list_all is_identifier_char s
      \<and> (if list_all is_digit s then numeric_identifier s else True))"

definition build_identifier :: "string \<Rightarrow> bool" where
  "build_identifier s = (s \<noteq> [] \<and> list_all is_identifier_char s)"

text \<open>The text before the first \<open>c\<close>, and the text after it if there is one.\<close>

definition cut_at :: "char \<Rightarrow> string \<Rightarrow> string \<times> string option" where
  "cut_at c s =
     (takeWhile (\<lambda>x. x \<noteq> c) s,
      case dropWhile (\<lambda>x. x \<noteq> c) s of [] \<Rightarrow> None | _ # rest \<Rightarrow> Some rest)"

definition identifiers :: "string option \<Rightarrow> string list" where
  "identifiers part = (case part of None \<Rightarrow> [] | Some p \<Rightarrow> split_on CHR ''.'' p)"

text \<open>
  Modelled from the spec: \<open>semver.parse\<close>, absent from the sources. A value that is
  not a string, or a string that is not a version, gives \<open>null\<close>.
\<close>

definition semver_parse :: "string option \<Rightarrow> semver option" where
  "semver_parse t =
     (case t of
        None \<Rightarrow> None
      | Some s \<Rightarrow>
          (let versionPart = fst (cut_at CHR ''+'' s);
               buildIds = identifiers (snd (cut_at CHR ''+'' s));
               mainPart = fst (cut_at CHR ''-'' versionPart);
               preIds = identifiers (snd (cut_at CHR ''-'' versionPart))
           in case split_on CHR ''.'' mainPart of
                [a, b, c] \<Rightarrow>
                  (if numeric_identifier a \<and> numeric_identifier b \<and> numeric_identifier c
                      \<and> list_all prerelease_identifier preIds
                      \<and> list_all build_identifier buildIds
                   then Some \<lparr>major = nat_of_digits a, minor = nat_of_digits b,
                               patch = nat_of_digits c, prerelease = preIds,
                               build = buildIds\<rparr>
                   else None)
              | _ \<Rightarrow> None))"

fun ascii_less :: "string \<Rightarrow> string \<Rightarrow> bool" where
  "ascii_less [] [] = False"
| "ascii_less [] (y # ys) = True"
| "ascii_less (x # xs) [] = False"
| "ascii_less (x # xs) (y # ys) =
     (if x = y then ascii_less xs ys else (of_char x :: nat) < of_char y)"

definition identifier_less :: "string \<Rightarrow> string \<Rightarrow> bool" where
  "identifier_less a b =
     (if list_all is_digit a \<and> list_all is_digit b then nat_of_digits a < nat_of_digits b
      else if list_all is_digit a then True
      else if list_all is_digit b then False
      else ascii_less a b)"

fun identifiers_less :: "string list \<Rightarrow> string list \<Rightarrow> bool" where
  "identifiers_less [] [] = False"
| "identifiers_less [] (y # ys) = True"
| "identifiers_less (x # xs) [] = False"
| "identifiers_less (x # xs) (y # ys) =
     (if x = y then identifiers_less xs ys else identifier_less x y)"

definition triple_less :: "nat \<times> nat \<times> nat \<Rightarrow> nat \<times> nat \<times> nat \<Rightarrow> bool" where
  "triple_less a b =
     (case a of (a1, a2, a3) \<Rightarrow> case b of (b1, b2, b3) \<Rightarrow>
        a1 < b1 \<or> (a1 = b1 \<and> (a2 < b2 \<or> (a2 = b2 \<and> a3 < b3))))"

definition triple :: "semver \<Rightarrow> nat \<times> nat \<times> nat" where
  "triple v = (major v, minor v, patch v)"

definition semver_less :: "semver \<Rightarrow> semver \<Rightarrow> bool" where
  "semver_less a b =
     (if triple a = triple b
      then (if prerelease a = [] then False
            else if prerelease b = [] then True
            else identifiers_less (prerelease a) (prerelease b))
      else triple_less (triple a) (triple b))"

definition caret_bound :: "semver \<Rightarrow> nat \<times> nat \<times> nat" where
  "caret_bound r =
     (if 0 < major r then (major r + 1, 0, 0)
      else if 0 < minor r then (0, minor r + 1, 0)
      else (0, 0, patch r + 1))"

definition tilde_bound :: "semver \<Rightarrow> nat \<times> nat \<times> nat" where
  "tilde_bound r = (major r, minor r + 1, 0)"

text \<open>
  Modelled from the spec: \<open>semver.satisfies\<close>, absent from the sources, on a range
  made of one of the comparators of the policy table and a version. A version or a range
  that does not parse is not satisfied.
\<close>

definition semver_satisfies :: "string \<Rightarrow> string \<Rightarrow> bool" where
  "semver_satisfies version rng =
     (case semver_parse (Some version) of
        None \<Rightarrow> False
      | Some v \<Rightarrow>
          (if prefix ''>='' rng
           then (case semver_parse (Some (drop 2 rng)) of
                   None \<Rightarrow> False
                 | Some r \<Rightarrow> \<not> semver_less v r)
           else if prefix ''^'' rng
           then (case semver_parse (Some (drop 1 rng)) of
                   None \<Rightarrow> False
                 | Some r \<Rightarrow> \<not> semver_less v r \<and> triple_less (triple v) (caret_bound r))
           else if prefix ''~'' rng
           then (case semver_parse (Some (drop 1 rng)) of
                   None \<Rightarrow> False
                 | Some r \<Rightarrow> \<not> semver_less v r \<and> triple_less (triple v) (tilde_bound r))
           else False))"

section \<open>A concrete run\<close>

text \<open>
  Inputs of one run, used to evaluate the definitions: release 2.4.2 of the repository
  \<open>enode/api\<close>; dev runs the image tagged 2.4.1, production the image tagged
  \<open>latest\<close>, and the lookup for sandbox throws; pull request 7 is open to main, pull
  request 8 is closed.
\<close>

definition ex_describe :: ecs where
  "ex_describe e k sec repo cluster service =
     (if e = ''dev'' then Inr ''registry.example/api:2.4.1''
      else if e = ''sandbox'' then Inl (Thrown ''AccessDeniedException'')
      else Inr ''registry.example/api:latest'')"

definition ex_externals :: "semver externals" where
  "ex_externals =
     \<lparr>parse = semver_parse,
      satisfies = semver_satisfies,
      describe = ex_describe,
      listPullRequestsAssociatedWithCommit =
        (\<lambda>token owner repo sha.
           Inr [\<lparr>number = 7, state = ''open'', base_ref = ''main''\<rparr>,
                \<lparr>number = 8, state = ''closed'', base_ref = ''main''\<rparr>]),
      toISOString = ''2024-05-01T10:00:00.000Z''\<rparr>"

definition ex_getInput :: "string \<Rightarrow> string" where
  "ex_getInput name =
     (if name = ''releaseVersion'' then ''2.4.2''
      else if name = ''repository'' then ''enode/api''
      else if name = ''clusterName'' then ''cluster''
      else if name = ''serviceName'' then ''api''
      else if name = ''token'' then ''t0ken''
      else if name = ''sha'' then ''0a1b2c3''
      else [])"

definition ex_opts :: opts where
  "ex_opts =
     \<lparr>opt_releaseVersion = ''2.4.2'', repoName = Some ''api'', clusterName = ''cluster'',
      serviceName = ''api'', devEcsKey = Some [], devEcsSecret = Some [],
      sandboxEcsKey = Some [], sandboxEcsSecret = Some [],
      productionEcsKey = Some [], productionEcsSecret = Some []\<rparr>"

section \<open>Active environments, as the spec defines them\<close>

text \<open>
  Following the words of the spec (section 3), not the code: an environment is active
  iff its credentials are present and non-empty. The active environments of a run are
  those of the policy table, in its order. The code's counterpart is \<open>envs\<close>.
\<close>

definition spec_supplied :: "string option \<Rightarrow> bool" where
  "spec_supplied v = (case v of None \<Rightarrow> False | Some s \<Rightarrow> s \<noteq> [])"

definition spec_active :: "opts \<Rightarrow> string \<Rightarrow> bool" where
  "spec_active os e =
     (case map_of (ECS os) e of
        None \<Rightarrow> False
      | Some c \<Rightarrow> spec_supplied (key c) \<and> spec_supplied (secret c))"

definition spec_active_environments :: "opts \<Rightarrow> string list" where
  "spec_active_environments os =
     filter (spec_active os) (object_keys ENV_VERSION_COMPARATOR)"

section \<open>Two more concrete runs\<close>

text \<open>
  A run in which the credentials of dev are not given and those of sandbox and production
  are. The lookup throws without credentials; with them, dev and sandbox run the image
  tagged 2.4.1 and production the image tagged \<open>latest\<close>.
\<close>

definition ex_checked_describe :: ecs where
  "ex_checked_describe e k sec repo cluster service =
     (if spec_supplied k \<and> spec_supplied sec
      then (if e = ''production'' then Inr ''registry.example/api:latest''
            else Inr ''registry.example/api:2.4.1'')
      else Inl (Thrown ''CredentialsProviderError''))"

definition ex_checked_externals :: "semver externals" where
  "ex_checked_externals = ex_externals\<lparr>describe := ex_checked_describe\<rparr>"

definition ex_partial_opts :: opts where
  "ex_partial_opts =
     \<lparr>opt_releaseVersion = ''2.4.2'', repoName = Some ''api'', clusterName = ''cluster'',
      serviceName = ''api'', devEcsKey = Some [], devEcsSecret = Some [],
      sandboxEcsKey = Some ''AKIASANDBOX'', sandboxEcsSecret = Some ''sandbox-secret'',
      productionEcsKey = Some ''AKIAPRODUCTION'',
      productionEcsSecret = Some ''production-secret''\<rparr>"

text \<open>
  A run in which every credential is given and the lookup for sandbox throws
  (\<open>ex_describe\<close>).
\<close>

definition ex_keys_getInput :: "string \<Rightarrow> string" where
  "ex_keys_getInput name =
     (if name = ''devEcsKey'' then ''AKIADEV''
      else if name = ''devEcsSecret'' then ''dev-secret''
      else if name = ''sandboxEcsKey'' then ''AKIASANDBOX''
      else if name = ''sandboxEcsSecret'' then ''sandbox-secret''
      else if name = ''productionEcsKey'' then ''AKIAPRODUCTION''
      else if name = ''productionEcsSecret'' then ''production-secret''
      else ex_getInput name)"

definition ex_keys_opts :: opts where
  "ex_keys_opts =
     \<lparr>opt_releaseVersion = ''2.4.2'', repoName = Some ''api'', clusterName = ''cluster'',
      serviceName = ''api'', devEcsKey = Some ''AKIADEV'', devEcsSecret = Some ''dev-secret'',
      sandboxEcsKey = Some ''AKIASANDBOX'', sandboxEcsSecret = Some ''sandbox-secret'',
      productionEcsKey = Some ''AKIAPRODUCTION'',
      productionEcsSecret = Some ''production-secret''\<rparr>"

section \<open>Helper facts\<close>

lemma split_on_nonempty: "split_on c s \<noteq> []"
  by (induction s) (auto split: list.splits)

lemma split_on_absent: "c \<notin> set s \<Longrightarrow> split_on c s = [s]"
  by (induction s) auto

lemma split_on_append: "split_on c (xs @ c # ys) = split_on c xs @ split_on c ys"
proof (induction xs)
  case Nil
  show ?case by simp
next
  case (Cons x xs)
  obtain p ps where p: "split_on c xs = p # ps"
    using split_on_nonempty [of c xs] by (cases "split_on c xs") auto
  show ?case using Cons p by simp
qed

lemma split_on_join:
  "ls \<noteq> [] \<Longrightarrow> list_all (\<lambda>l. c \<notin> set l) ls \<Longrightarrow> split_on c (join [c] ls) = ls"
proof (induction ls)
  case Nil
  then show ?case by simp
next
  case (Cons l ls)
  show ?case
  proof (cases ls)
    case Nil
    with Cons.prems show ?thesis by (simp add: split_on_absent)
  next
    case (Cons m ms)
    with Cons.IH Cons.prems show ?thesis
      by (simp add: split_on_append split_on_absent)
  qed
qed

lemma map_throwing_all_Inr:
  "map_throwing f (map g xs) = Inr (map h xs)" if "\<And>x. f (g x) = Inr (h x)"
  using that by (induction xs) auto

lemma map_throwing_summary_undefined:
  "None \<in> set images \<Longrightarrow>
   map_throwing summary_line images =
     Inl (TypeError undefined_read)"
proof (induction images)
  case Nil
  then show ?case by simp
next
  case (Cons i images)
  then show ?case
    by (cases i) (auto simp: summary_line_def split: sum.splits)
qed

lemma fold_fulfil_length: "length (fold (fulfil vals) completion slots) = length slots"
  by (induction completion arbitrary: slots) (auto simp: fulfil_def)

lemma fold_fulfil_nth:
  "length slots = length vals \<Longrightarrow> i < length vals \<Longrightarrow>
   fold (fulfil vals) completion slots ! i =
     (if i \<in> set completion then Some (vals ! i) else slots ! i)"
proof (induction completion arbitrary: slots)
  case Nil
  then show ?case by simp
next
  case (Cons j completion)
  have len: "length (fulfil vals j slots) = length vals"
    using Cons.prems(1) by (simp add: fulfil_def)
  show ?case
    using Cons.IH [OF len Cons.prems(2)] Cons.prems
    by (auto simp: fulfil_def nth_list_update)
qed

lemma those_map_Some: "those (map Some xs) = Some xs"
  by (induction xs) auto

lemma promise_all_complete:
  assumes "{..<length vals} \<subseteq> set completion"
  shows "promise_all completion vals = Some vals"
proof -
  let ?slots = "fold (fulfil vals) completion (replicate (length vals) None)"
  have "?slots = map Some vals"
  proof (rule nth_equalityI)
    show "length ?slots = length (map Some vals)" by (simp add: fold_fulfil_length)
  next
    fix i assume "i < length ?slots"
    then have i: "i < length vals" by (simp add: fold_fulfil_length)
    then have "i \<in> set completion" using assms by auto
    then show "?slots ! i = map Some vals ! i"
      using i by (simp add: fold_fulfil_nth)
  qed
  then show ?thesis by (simp add: promise_all_def those_map_Some)
qed

lemma envs_all: "envs os = [''dev'', ''sandbox'', ''production'']"
  by (simp add: envs_def hasCredentials_def ECS_def object_keys_def ENV_VERSION_COMPARATOR_def)

lemma branch_env: "branch ext os e = Some r \<Longrightarrow> env r = e"
  by (auto simp: branch_def evaluate_def Let_def split: option.splits sum.splits)

lemma branch_lookup_throws:
  "(\<And>k s r c sv. describe ext e k s r c sv = Inl err) \<Longrightarrow> branch ext os e = None"
  by (auto simp: branch_def getCurrentImage_def split: option.splits sum.splits)
lemma replace_first_absent: "a \<notin> set s \<Longrightarrow> replace_first a b s = s"
  by (induction s) auto

lemma replace_first_at: "a \<notin> set pre \<Longrightarrow> replace_first a b (pre @ a # post) = pre @ b # post"
  by (induction pre) auto

lemma summary_line_Some:
  "summary_line (Some r) =
     Inr ((if willBeReplaced r then glyph_updated else glyph_not_updated) @ '' **'' @ env r
          @ (if willBeReplaced r then ''** will be updated, currently running ''
             else ''** will not be updated, currently running '')
          @ js_str (currentImageTag r))"
  by (simp add: summary_line_def)

lemma split_on_framed:
  assumes "c \<notin> set h" and "c \<notin> set f"
  shows "split_on c (h @ [c, c] @ J @ [c, c] @ f) = [h, []] @ split_on c J @ [[], f]"
proof -
  have "split_on c (h @ [c, c] @ J @ [c, c] @ f) =
      split_on c (h @ c # ([] @ c # (J @ c # ([] @ c # f))))"
    by simp
  also have "\<dots> = split_on c h @ split_on c [] @ split_on c J @ split_on c [] @ split_on c f"
    by (simp only: split_on_append)
  also have "\<dots> = [h, []] @ split_on c J @ [[], f]"
    using assms by (simp add: split_on_absent)
  finally show ?thesis .
qed

lemma deploymentFeedback_nth:
  "i < length (envs os) \<Longrightarrow> deploymentFeedback ext os ! i = branch ext os (envs os ! i)"
  by (simp add: deploymentFeedback_def)

subsection \<open>Evaluations of the semver functions\<close>

lemma parse_abc123: "semver_parse (Some ''abc123'') = None"
  by code_simp

lemma ex_parse_latest: "semver_parse (Some ''latest'') = None"
  by code_simp

lemma parse_241:
  "semver_parse (Some ''2.4.1'') =
     Some \<lparr>major = 2, minor = 4, patch = 1, prerelease = [], build = []\<rparr>"
  by code_simp

lemma ex_sat_dev: "semver_satisfies ''2.4.2'' ''>=2.4.1''"
  by code_simp

lemma sat_production_242: "semver_satisfies ''2.4.2'' ''~2.4.1''"
  by code_simp

lemma sat_production_250: "\<not> semver_satisfies ''2.5.0'' ''~2.4.1''"
  by code_simp

lemma sat_sandbox_300: "\<not> semver_satisfies ''3.0.0'' ''^2.4.1''"
  by code_simp

lemma sat_dev_199: "\<not> semver_satisfies ''1.9.9'' ''>=2.4.1''"
  by code_simp

subsection \<open>The concrete runs\<close>

lemma sat_sandbox_242: "semver_satisfies ''2.4.2'' ''^2.4.1''"
  by code_simp

lemma ex_partial_deploymentFeedback:
  "deploymentFeedback ex_checked_externals ex_partial_opts =
     [None,
      Some \<lparr>env = ''sandbox'', currentImageTag = Some ''2.4.1'', releaseVersion = ''2.4.2'',
             willBeReplaced = True\<rparr>,
      Some \<lparr>env = ''production'', currentImageTag = Some ''latest'', releaseVersion = ''2.4.2'',
             willBeReplaced = True\<rparr>]"
  by (simp add: deploymentFeedback_def envs_all branch_def ECS_def ex_checked_externals_def
      ex_externals_def ex_partial_opts_def ex_checked_describe_def spec_supplied_def
      getCurrentImage_def image_result_def evaluate_def ENV_VERSION_COMPARATOR_def js_str_def
      tagAsBuild_def ex_parse_latest parse_241 sat_sandbox_242)

lemma ex_partial_active:
  "spec_active_environments ex_partial_opts = [''sandbox'', ''production'']"
  by (simp add: spec_active_environments_def spec_active_def spec_supplied_def ECS_def
      ex_partial_opts_def object_keys_def ENV_VERSION_COMPARATOR_def)

lemma ex_keys_active:
  "spec_active_environments ex_keys_opts = [''dev'', ''sandbox'', ''production'']"
  by (simp add: spec_active_environments_def spec_active_def spec_supplied_def ECS_def
      ex_keys_opts_def object_keys_def ENV_VERSION_COMPARATOR_def)

lemma ex_keys_deploymentFeedback:
  "deploymentFeedback ex_externals ex_keys_opts =
     [Some \<lparr>env = ''dev'', currentImageTag = Some ''2.4.1'', releaseVersion = ''2.4.2'',
             willBeReplaced = True\<rparr>,
      None,
      Some \<lparr>env = ''production'', currentImageTag = Some ''latest'', releaseVersion = ''2.4.2'',
             willBeReplaced = True\<rparr>]"
  by (simp add: deploymentFeedback_def envs_all branch_def ECS_def ex_externals_def
      ex_keys_opts_def ex_describe_def getCurrentImage_def image_result_def evaluate_def
      ENV_VERSION_COMPARATOR_def js_str_def tagAsBuild_def ex_parse_latest parse_241
      ex_sat_dev)

lemma map_throwing_summary_those:
  "map_throwing summary_line images =
     (case those images of
        None \<Rightarrow> Inl (TypeError undefined_read)
      | Some rs \<Rightarrow>
          Inr (map (\<lambda>r. (if willBeReplaced r then glyph_updated else glyph_not_updated)
                     @ '' **'' @ env r
                     @ (if willBeReplaced r then ''** will be updated, currently running ''
                        else ''** will not be updated, currently running '')
                     @ js_str (currentImageTag r)) rs))"
proof (induction images)
  case Nil
  then show ?case by simp
next
  case (Cons i images)
  show ?case
  proof (cases i)
    case None
    then show ?thesis by (simp add: summary_line_def)
  next
    case (Some r)
    then show ?thesis
      using Cons.IH by (cases "those images") (simp_all add: summary_line_Some)
  qed
qed

text \<open>
  The lines of the comment when no entry of the report is \<open>undefined\<close> and no text
  in it holds a line break: header, empty line, one line per result, empty line, footer.
\<close>

lemma render_lines_of_results:
  assumes "newline \<notin> set v" and "newline \<notin> set ts"
    and "list_all (\<lambda>r. newline \<notin> set (env r) \<and> newline \<notin> set (js_str (currentImageTag r))) rs"
  shows "glyph_updated \<noteq> glyph_not_updated
    \<and> (\<exists>body. render (map Some rs) v ts = Inr body
         \<and> split_on newline body =
             [''Continuous Deployment Summary for **v'' @ v @ ''**:'', []]
             @ (if rs = [] then [[]]
                else map (\<lambda>r. (if willBeReplaced r then glyph_updated else glyph_not_updated)
                           @ '' **'' @ env r
                           @ (if willBeReplaced r then ''** will be updated, currently running ''
                              else ''** will not be updated, currently running '')
                           @ js_str (currentImageTag r)) rs)
             @ [[], ''_Information valid as of '' @ ts @ ''_''])"
proof -
  let ?line = "\<lambda>r. (if willBeReplaced r then glyph_updated else glyph_not_updated)
                 @ '' **'' @ env r
                 @ (if willBeReplaced r then ''** will be updated, currently running ''
                    else ''** will not be updated, currently running '')
                 @ js_str (currentImageTag r)"
  have glyphs: "glyph_updated \<noteq> glyph_not_updated"
    by (simp add: glyph_updated_def glyph_not_updated_def)
  have summary: "map_throwing summary_line (map Some rs) = Inr (map ?line rs)"
    by (rule map_throwing_all_Inr) (rule summary_line_Some)
  have header: "newline \<notin> set (summary_header v)"
    using assms(1) by (simp add: summary_header_def newline_def)
  have footer: "newline \<notin> set (summary_footer ts)"
    using assms(2) by (simp add: summary_footer_def newline_def)
  have lines: "list_all (\<lambda>l. newline \<notin> set l) (map ?line rs)"
    using assms(3)
    by (induction rs) (auto simp: glyph_updated_def glyph_not_updated_def newline_def)
  have joined: "split_on newline (join [newline] (map ?line rs)) =
      (if rs = [] then [[]] else map ?line rs)"
    using lines by (simp add: split_on_join)
  have "split_on newline (comment_body v (map ?line rs) ts) =
      [summary_header v, []] @ (if rs = [] then [[]] else map ?line rs) @ [[], summary_footer ts]"
    unfolding comment_body_def
    by (simp only: split_on_framed [OF header footer] joined)
  then show ?thesis
    using glyphs summary by (simp add: render_def summary_header_def summary_footer_def)
qed

section \<open>Claims\<close>

text \<open>
  C1. For an environment of the policy table with comparator \<open>cmp\<close>, a current tag
  \<open>t\<close> and a release version \<open>v\<close>, \<open>willBeReplaced\<close> is the disjunction of two
  checks: \<open>t\<close> parses as a version and \<open>v\<close> with its first \<open>-\<close> replaced by
  \<open>+\<close> satisfies the range \<open>cmp\<close> followed by \<open>t\<close>; or \<open>t\<close> starts with
  \<open>latest\<close>. So a tag that neither parses nor starts with \<open>latest\<close> gives
  \<open>False\<close>, whatever the policy and the release. The two semver functions are
  arbitrary.
\<close>

theorem evaluate_or_of_two_checks:
  "map_of ENV_VERSION_COMPARATOR e = Some cmp \<longrightarrow>
     willBeReplaced (evaluate p sat e \<lparr>image = img, tag = Some t\<rparr> v)
       = ((p (Some t) \<noteq> None \<and> sat (replace_first CHR ''-'' CHR ''+'' v) (cmp @ t))
          \<or> prefix ''latest'' t)
     \<and> (p (Some t) = None \<and> \<not> prefix ''latest'' t \<longrightarrow>
          \<not> willBeReplaced (evaluate p sat e \<lparr>image = img, tag = Some t\<rparr> v))"
  by (auto simp: evaluate_def Let_def js_str_def tagAsBuild_def)

theorem evaluate_or_of_two_checks_witness:
  "map_of ENV_VERSION_COMPARATOR ''production'' = Some ''~''
   \<and> willBeReplaced
        (evaluate semver_parse semver_satisfies ''production''
           \<lparr>image = ''registry.example/api:abc123'', tag = Some ''abc123''\<rparr> ''2.4.2'')
       = ((semver_parse (Some ''abc123'') \<noteq> None
           \<and> semver_satisfies (replace_first CHR ''-'' CHR ''+'' ''2.4.2'') (''~'' @ ''abc123''))
          \<or> prefix ''latest'' ''abc123'')
   \<and> semver_parse (Some ''abc123'') = None
   \<and> \<not> prefix ''latest'' ''abc123''
   \<and> \<not> willBeReplaced
        (evaluate semver_parse semver_satisfies ''production''
           \<lparr>image = ''registry.example/api:abc123'', tag = Some ''abc123''\<rparr> ''2.4.2'')"
  using evaluate_or_of_two_checks
    [of "''production''" "''~''" semver_parse semver_satisfies
        "''registry.example/api:abc123''" "''abc123''" "''2.4.2''"]
  by (simp add: ENV_VERSION_COMPARATOR_def parse_abc123)

text \<open>
  C2. The claim: a lookup that throws for one environment never fails the run, and the
  results of the other environments reach the report and the summary. The code: when the
  lookup of any environment of the table throws, the entry of that environment is
  \<open>undefined\<close>, line 204 throws on it, and the run ends in \<open>core.setFailed\<close> with no
  comment posted and no output set.
\<close>

theorem run_fails_when_a_lookup_throws:
  assumes "e \<in> set [''dev'', ''sandbox'', ''production'']"
    and "\<forall>k s r c sv. describe ext e k s r c sv = Inl err"
  shows "run ext getInput = \<lparr>failed = Some undefined_read, comments = [], output_images = None\<rparr>"
proof -
  have "None \<in> set (deploymentFeedback ext os)" for os
  proof -
    have "branch ext os e = None"
      using assms(2) by (simp add: branch_lookup_throws)
    moreover have "e \<in> set (envs os)"
      using assms(1) by (simp add: envs_all)
    ultimately show ?thesis
      unfolding deploymentFeedback_def by (metis image_eqI list.set_map)
  qed
  then show ?thesis
    by (simp add: run_def Let_def render_def map_throwing_summary_undefined)
qed

theorem run_fails_when_a_lookup_throws_witness:
  "''sandbox'' \<in> set [''dev'', ''sandbox'', ''production'']
   \<and> (\<forall>k s r c sv. describe ex_externals ''sandbox'' k s r c sv
         = Inl (Thrown ''AccessDeniedException''))
   \<and> run ex_externals ex_getInput =
       \<lparr>failed = Some undefined_read, comments = [], output_images = None\<rparr>"
proof -
  have h1: "''sandbox'' \<in> set [''dev'', ''sandbox'', ''production'']"
    by simp
  have h2: "\<forall>k s r c sv. describe ex_externals ''sandbox'' k s r c sv
      = Inl (Thrown ''AccessDeniedException'')"
    by (simp add: ex_externals_def ex_describe_def)
  show ?thesis
    using h1 h2 run_fails_when_a_lookup_throws [OF h1 h2, of ex_getInput] by simp
qed

text \<open>
  C3. The claim: an environment whose credentials are missing or empty is left out. The
  code: \<open>hasCredentials\<close> is the truth value of the object \<open>ECS[env]\<close>, which exists
  for each of the three environments whatever the key and the secret are, so all three
  environments are iterated for every options object; with empty strings for every key
  and secret, dev still has credentials and the report has three entries.
\<close>

theorem envs_ignores_credentials:
  "envs os = [''dev'', ''sandbox'', ''production'']
   \<and> hasCredentials os e = (e \<in> set (object_keys ENV_VERSION_COMPARATOR))
   \<and> devEcsKey ex_opts = Some [] \<and> devEcsSecret ex_opts = Some []
   \<and> hasCredentials ex_opts ''dev''
   \<and> length (deploymentFeedback ext ex_opts) = 3"
  by (auto simp: envs_all hasCredentials_def ECS_def object_keys_def ENV_VERSION_COMPARATOR_def
      ex_opts_def deploymentFeedback_def)

text \<open>
  C4. With the policy table of lines 12-16 and the semver functions as modelled above,
  \<open>willBeReplaced\<close> is true for production running 2.4.1 and release 2.4.2, false for
  production running 2.4.1 and release 2.5.0, false for sandbox running 2.4.1 and release
  3.0.0, and false for dev running 2.4.1 and release 1.9.9.
\<close>

theorem policy_table_scenarios:
  "ENV_VERSION_COMPARATOR = [(''dev'', ''>=''), (''sandbox'', ''^''), (''production'', ''~'')]
   \<and> willBeReplaced (evaluate semver_parse semver_satisfies ''production''
        \<lparr>image = img, tag = Some ''2.4.1''\<rparr> ''2.4.2'')
   \<and> \<not> willBeReplaced (evaluate semver_parse semver_satisfies ''production''
        \<lparr>image = img, tag = Some ''2.4.1''\<rparr> ''2.5.0'')
   \<and> \<not> willBeReplaced (evaluate semver_parse semver_satisfies ''sandbox''
        \<lparr>image = img, tag = Some ''2.4.1''\<rparr> ''3.0.0'')
   \<and> \<not> willBeReplaced (evaluate semver_parse semver_satisfies ''dev''
        \<lparr>image = img, tag = Some ''2.4.1''\<rparr> ''1.9.9'')"
  by (simp add: evaluate_def ENV_VERSION_COMPARATOR_def js_str_def tagAsBuild_def parse_241
      sat_production_242 sat_production_250 sat_sandbox_300 sat_dev_199)

text \<open>
  C5. The tag normalizer rewrites only the first \<open>-\<close> of the candidate version to \<open>+\<close>:
  an input with no \<open>-\<close> comes back unchanged (so normalizing it twice is normalizing it
  once), \<open>1.2.3-rc1\<close> becomes \<open>1.2.3+rc1\<close>, and whatever follows the first \<open>-\<close>,
  further \<open>-\<close> included, is left as it is.
\<close>

theorem tagAsBuild_first_dash_only:
  "(CHR ''-'' \<notin> set s \<longrightarrow> tagAsBuild s = s \<and> tagAsBuild (tagAsBuild s) = tagAsBuild s)
   \<and> tagAsBuild ''1.2.3-rc1'' = ''1.2.3+rc1''
   \<and> (CHR ''-'' \<notin> set pre \<longrightarrow> tagAsBuild (pre @ CHR ''-'' # post) = pre @ CHR ''+'' # post)"
  by (simp add: tagAsBuild_def replace_first_absent replace_first_at)

theorem tagAsBuild_first_dash_only_witness:
  "CHR ''-'' \<notin> set ''2.4.2'' \<and> tagAsBuild ''2.4.2'' = ''2.4.2''
   \<and> tagAsBuild (tagAsBuild ''2.4.2'') = tagAsBuild ''2.4.2''
   \<and> CHR ''-'' \<notin> set ''1.0.0''
   \<and> tagAsBuild (''1.0.0'' @ CHR ''-'' # ''rc-1-x'') = ''1.0.0'' @ CHR ''+'' # ''rc-1-x''"
  using tagAsBuild_first_dash_only [of "''2.4.2''" "''1.0.0''" "''rc-1-x''"]
  by simp

text \<open>
  C6. The claim: the report has exactly one entry per active environment, in the order of
  the policy table whatever the order in which the lookups complete, entry \<open>i\<close> being
  that of the \<open>i\<close>-th active environment. The code: for every completion order in which
  the three lookups complete, the report is the outcome of lines 88-125 for dev, sandbox
  and production, in this order, whatever the credentials. So the order is that of the
  table, but an environment that is not active has an entry too: with no credentials for
  dev and credentials for the other two, the active environments are sandbox and
  production, the report has three entries, and its first entry is that of dev.
\<close>

theorem report_has_entry_for_inactive_environment:
  assumes "set completion = {..<3}"
  shows "deploymentFeedback_completing completion ext os =
      Some (map (branch ext os) [''dev'', ''sandbox'', ''production''])
    \<and> devEcsKey ex_partial_opts = Some [] \<and> devEcsSecret ex_partial_opts = Some []
    \<and> spec_active_environments ex_partial_opts = [''sandbox'', ''production'']
    \<and> deploymentFeedback_completing completion ex_checked_externals ex_partial_opts =
        Some [None,
              Some \<lparr>env = ''sandbox'', currentImageTag = Some ''2.4.1'',
                     releaseVersion = ''2.4.2'', willBeReplaced = True\<rparr>,
              Some \<lparr>env = ''production'', currentImageTag = Some ''latest'',
                     releaseVersion = ''2.4.2'', willBeReplaced = True\<rparr>]"
proof -
  have all: "deploymentFeedback_completing completion x y = Some (deploymentFeedback x y)"
    for x :: "semver externals" and y
  proof -
    have "{..<length (map (branch x y) (envs y))} \<subseteq> set completion"
      using assms by (simp add: envs_all)
    then show ?thesis
      unfolding deploymentFeedback_completing_def deploymentFeedback_def
      by (rule promise_all_complete)
  qed
  have gen: "deploymentFeedback_completing completion ext os =
      Some (map (branch ext os) [''dev'', ''sandbox'', ''production''])"
  proof -
    have "{..<length (map (branch ext os) (envs os))} \<subseteq> set completion"
      using assms by (simp add: envs_all)
    then have "promise_all completion (map (branch ext os) (envs os)) =
        Some (map (branch ext os) (envs os))"
      by (rule promise_all_complete)
    then show ?thesis
      by (simp add: deploymentFeedback_completing_def envs_all)
  qed
  have "devEcsKey ex_partial_opts = Some [] \<and> devEcsSecret ex_partial_opts = Some []"
    by (simp add: ex_partial_opts_def)
  then show ?thesis
    using gen all [of ex_checked_externals ex_partial_opts]
    by (simp only: ex_partial_deploymentFeedback ex_partial_active simp_thms)
qed

theorem report_has_entry_for_inactive_environment_witness:
  "set [2, 0, 1] = {..<(3::nat)}
   \<and> spec_active_environments ex_partial_opts = [''sandbox'', ''production'']
   \<and> deploymentFeedback_completing [2, 0, 1] ex_checked_externals ex_partial_opts =
        Some [None,
              Some \<lparr>env = ''sandbox'', currentImageTag = Some ''2.4.1'',
                     releaseVersion = ''2.4.2'', willBeReplaced = True\<rparr>,
              Some \<lparr>env = ''production'', currentImageTag = Some ''latest'',
                     releaseVersion = ''2.4.2'', willBeReplaced = True\<rparr>]"
proof -
  have h: "set [2, 0, 1] = {..<(3::nat)}"
    by auto
  show ?thesis
    using h report_has_entry_for_inactive_environment [OF h, of ex_checked_externals ex_partial_opts]
    by blast
qed

text \<open>
  C7, as amended. The tag is the second piece of the image reference split at \<open>:\<close>:
  \<open>undefined\<close> when the reference holds no \<open>:\<close>, and otherwise the text between
  the first \<open>:\<close> and the next one, or the end of the string when there is no next
  one.
\<close>

theorem tag_is_second_segment:
  "(CHR '':'' \<notin> set s \<longrightarrow> tag (image_result s) = None)
   \<and> (CHR '':'' \<notin> set pre \<and> CHR '':'' \<notin> set mid \<longrightarrow>
        tag (image_result (pre @ CHR '':'' # mid)) = Some mid
        \<and> tag (image_result (pre @ CHR '':'' # mid @ CHR '':'' # rest)) = Some mid)"
proof -
  have seg: "js_index (split_on c (pre @ c # mid @ c # rest)) (Suc 0) = Some mid"
    if "c \<notin> set pre" "c \<notin> set mid" for c :: char and pre mid rest
    using that split_on_append [of c pre "mid @ c # rest"] split_on_append [of c mid rest]
    by (simp add: split_on_absent)
  have one: "js_index (split_on c (pre @ c # mid)) (Suc 0) = Some mid"
    if "c \<notin> set pre" "c \<notin> set mid" for c :: char and pre mid
    using that split_on_append [of c pre mid] by (simp add: split_on_absent)
  show ?thesis
    by (simp add: image_result_def split_on_absent seg one del: split_on.simps)
qed

theorem tag_is_second_segment_witness:
  "CHR '':'' \<notin> set ''api''
   \<and> tag (image_result ''api'') = None
   \<and> CHR '':'' \<notin> set ''registry.example/api'' \<and> CHR '':'' \<notin> set ''2.4.1''
   \<and> tag (image_result (''registry.example/api'' @ CHR '':'' # ''2.4.1'')) = Some ''2.4.1''
   \<and> tag (image_result (''registry.example/api'' @ CHR '':'' # ''2.4.1'' @ CHR '':'' # ''x''))
       = Some ''2.4.1''"
  using tag_is_second_segment [of "''api''" "''registry.example/api''" "''2.4.1''" "''x''"]
  by simp

text \<open>
  The claim as stated, that the tag is everything after the first \<open>:\<close>, fails on a
  reference with two of them.
\<close>

theorem tag_is_second_segment_counterexample:
  "''registry:5000/api:2.4.1'' = ''registry'' @ CHR '':'' # ''5000/api:2.4.1''
   \<and> CHR '':'' \<notin> set ''registry''
   \<and> tag (image_result ''registry:5000/api:2.4.1'') = Some ''5000/api''
   \<and> tag (image_result ''registry:5000/api:2.4.1'') \<noteq> Some ''5000/api:2.4.1''"
  by (simp add: image_result_def)

text \<open>
  C8. The claim: the summary has one line for every gate result of the report, between
  the header and the footer. The code: lines 203-215 give the comment body, with one
  line per entry, only when no entry of the report is \<open>undefined\<close>; otherwise line 204
  throws and there is no summary. In the run where the lookup for sandbox throws, the
  report holds the gate results of dev and production, and rendering it throws: neither
  result gets a line.
\<close>

theorem render_throws_on_undefined_entry:
  "render images v ts =
     (case those images of
        None \<Rightarrow> Inl (TypeError undefined_read)
      | Some rs \<Rightarrow>
          Inr (comment_body v
                 (map (\<lambda>r. (if willBeReplaced r then glyph_updated else glyph_not_updated)
                        @ '' **'' @ env r
                        @ (if willBeReplaced r then ''** will be updated, currently running ''
                           else ''** will not be updated, currently running '')
                        @ js_str (currentImageTag r)) rs)
                 ts))
   \<and> deploymentFeedback ex_externals ex_keys_opts =
       [Some \<lparr>env = ''dev'', currentImageTag = Some ''2.4.1'', releaseVersion = ''2.4.2'',
               willBeReplaced = True\<rparr>,
        None,
        Some \<lparr>env = ''production'', currentImageTag = Some ''latest'',
               releaseVersion = ''2.4.2'', willBeReplaced = True\<rparr>]
   \<and> render (deploymentFeedback ex_externals ex_keys_opts) ''2.4.2'' (toISOString ex_externals)
       = Inl (TypeError undefined_read)"
proof -
  have "render images v ts =
     (case those images of
        None \<Rightarrow> Inl (TypeError undefined_read)
      | Some rs \<Rightarrow>
          Inr (comment_body v
                 (map (\<lambda>r. (if willBeReplaced r then glyph_updated else glyph_not_updated)
                        @ '' **'' @ env r
                        @ (if willBeReplaced r then ''** will be updated, currently running ''
                           else ''** will not be updated, currently running '')
                        @ js_str (currentImageTag r)) rs)
                 ts))"
    by (simp add: render_def map_throwing_summary_those split: option.splits)
  moreover have "render (deploymentFeedback ex_externals ex_keys_opts) ''2.4.2''
      (toISOString ex_externals) = Inl (TypeError undefined_read)"
    by (simp add: ex_keys_deploymentFeedback render_def summary_line_def)
  ultimately show ?thesis
    using ex_keys_deploymentFeedback by simp
qed

text \<open>
  C9. On the array of the response, lines 156-165 take the \<open>then\<close> branch and return
  the pull requests whose state is \<open>open\<close> and whose base ref is \<open>main\<close>, in the
  order of the response; \<open>findPullRequest\<close> returns this list, or fails as the request
  does. With no matching pull request the \<open>then\<close> branch is still the one taken, and
  the list is empty.
\<close>

theorem findPullRequest_open_to_main:
  "mainPrs_of relatedPulls =
     (ThenBranch, filter (\<lambda>pr. state pr = ''open'' \<and> base_ref pr = ''main'') relatedPulls)
   \<and> findPullRequest ext token owner repo sha =
       (case listPullRequestsAssociatedWithCommit ext token owner repo sha of
          Inl err \<Rightarrow> Inl err
        | Inr prs \<Rightarrow> Inr (filter (\<lambda>pr. state pr = ''open'' \<and> base_ref pr = ''main'') prs))
   \<and> fst (mainPrs_of []) = ThenBranch \<and> snd (mainPrs_of []) = []"
  by (auto simp: mainPrs_of_def findPullRequest_def Let_def conj_commute split: sum.splits)

text \<open>
  C10. The claim: where a lookup throws, the list of \<open>deploymentFeedback\<close> holds
  \<open>undefined\<close> at the position of that environment, its length is unchanged, and the
  entry appears as \<open>null\<close> in the serialized output. The code: when the lookup of the
  \<open>i\<close>-th environment of the table throws, entry \<open>i\<close> of the list is \<open>undefined\<close>
  and the list has three entries, for every options object; but the run then fails at
  line 204 and never reaches line 224, so no output is set.
\<close>

theorem undefined_entry_not_serialized:
  assumes "i < 3"
    and "\<forall>k s r c sv. describe ext ([''dev'', ''sandbox'', ''production''] ! i) k s r c sv
           = Inl err"
  shows "(\<forall>os. deploymentFeedback ext os ! i = None \<and> length (deploymentFeedback ext os) = 3)
    \<and> output_images (run ext getInput) = None
    \<and> failed (run ext getInput) = Some undefined_read"
proof -
  have entry: "deploymentFeedback ext os ! i = None" for os
  proof -
    have "branch ext os ([''dev'', ''sandbox'', ''production''] ! i) = None"
      using assms(2) by (simp add: branch_lookup_throws)
    moreover have "i < length (envs os)"
      using assms(1) by (simp add: envs_all)
    ultimately show ?thesis
      by (simp add: deploymentFeedback_nth envs_all)
  qed
  have len: "length (deploymentFeedback ext os) = 3" for os
    by (simp add: deploymentFeedback_def envs_all)
  have "None \<in> set (deploymentFeedback ext os)" for os
    using entry [of os] len [of os] assms(1) by (metis nth_mem)
  then have "run ext getInput =
      \<lparr>failed = Some undefined_read, comments = [], output_images = None\<rparr>"
    by (simp add: run_def Let_def render_def map_throwing_summary_undefined)
  then show ?thesis
    using entry len by simp
qed

theorem undefined_entry_not_serialized_witness:
  "(1::nat) < 3
   \<and> (\<forall>k s r c sv. describe ex_externals ([''dev'', ''sandbox'', ''production''] ! 1) k s r c sv
         = Inl (Thrown ''AccessDeniedException''))
   \<and> spec_active_environments ex_keys_opts = [''dev'', ''sandbox'', ''production'']
   \<and> deploymentFeedback ex_externals ex_keys_opts ! 1 = None
   \<and> length (deploymentFeedback ex_externals ex_keys_opts) = 3
   \<and> output_images (run ex_externals ex_keys_getInput) = None
   \<and> failed (run ex_externals ex_keys_getInput) = Some undefined_read"
proof -
  have h1: "(1::nat) < 3"
    by simp
  have h2: "\<forall>k s r c sv.
      describe ex_externals ([''dev'', ''sandbox'', ''production''] ! 1) k s r c sv
        = Inl (Thrown ''AccessDeniedException'')"
    by (simp add: ex_externals_def ex_describe_def)
  show ?thesis
    using h1 h2 undefined_entry_not_serialized [OF h1 h2, of ex_keys_getInput] ex_keys_active
    by simp
qed

end
